theory Spec2Isabelle
  imports Complex_Main "HOL-Library.Word"
begin

section \<open>Values of the host language\<close>

text \<open>
  A JavaScript string is a sequence of 16-bit code units. Literals of the source are
  written \<open>str ''...''\<close>.
\<close>

type_synonym code_unit = "16 word"
type_synonym jsstring = "code_unit list"
type_synonym byte = "8 word"
type_synonym bytes = "byte list"

definition str :: "string \<Rightarrow> jsstring" where
  "str s = map of_char s"

text \<open>
  A JavaScript number, as far as the source inspects it: \<open>Number.isInteger\<close>, the
  comparison \<open>id < 1\<close>, and \<open>teamId === 0\<close>. \<open>Integer i\<close> is the integer \<open>i\<close> (both
  zeros are \<open>Integer 0\<close>); \<open>Fraction q\<close> is the finite value \<open>q\<close> when \<open>q\<close> is not
  an integer (no number is \<open>Fraction q\<close> for an integral \<open>q\<close>). Equality of this type is
  the \<open>SameValueZero\<close> comparison a \<open>Map\<close> uses for its keys. Rounding of large
  integers to doubles is not modelled.
\<close>

datatype number = Integer int | Fraction rat | NaN | PosInfinity | NegInfinity

fun isInteger :: "number \<Rightarrow> bool" where
  "isInteger (Integer i) = True"
| "isInteger _ = False"

text \<open>\<open>js_less x n\<close> is the source's \<open>x < n\<close> for an integer literal \<open>n\<close>.\<close>

fun js_less :: "number \<Rightarrow> int \<Rightarrow> bool" where
  "js_less (Integer i) n = (i < n)"
| "js_less (Fraction q) n = (q < of_int n)"
| "js_less NaN n = False"
| "js_less PosInfinity n = False"
| "js_less NegInfinity n = True"

section \<open>The schema (shared/schema.ts)\<close>

text \<open>
  One record per table, one field per column, in the order of the schema. A nullable
  column is an \<open>option\<close>. Integer columns are \<open>int\<close>: the 32-bit range of the
  database's \<open>integer\<close> type is not modelled.
\<close>

record user =
  u_id :: int
  username :: jsstring
  password :: jsstring
  role :: jsstring
  u_createdBy :: "int option"
  u_teamId :: "int option"

record team =
  t_id :: int
  name :: jsstring
  description :: "jsstring option"
  t_createdBy :: int
  t_createdAt :: jsstring

record team_member =
  tm_id :: int
  tm_teamId :: int
  tm_userId :: int
  tm_addedBy :: int
  tm_addedAt :: jsstring

record client =
  c_id :: int
  passportNumber :: jsstring
  fullName :: jsstring
  phoneNumber :: jsstring
  email :: jsstring
  nationalId :: jsstring
  passportImage :: jsstring
  workType :: jsstring
  workplace :: jsstring
  gender :: jsstring

record booking_details =
  date :: jsstring

record appointment =
  a_id :: int
  clientId :: int
  teamId :: int
  status :: jsstring
  collectedBy :: int
  approvedBy :: "int option"
  pdfUrl :: "jsstring option"
  bookingDetails :: booking_details
  createdAt :: jsstring

definition pending :: jsstring where
  "pending = str ''pending''"

definition approved :: jsstring where
  "approved = str ''approved''"

section \<open>The storage object (DatabaseStorage)\<close>

text \<open>
  What a rejected promise carries: a statement the database refuses (a value of the
  wrong type for its column, a violated key), the error \<open>updateAppointment\<close> throws
  itself, a failed schema \<open>parse\<close>, and the errors of the crypto functions.
\<close>

datatype error = DbError | InvalidAppointmentId | ZodError | TypeError | RangeError

text \<open>
  The log is ghost state: it records which operation of the storage object was entered
  and which table a statement was sent to, so that "no operation was invoked" and
  "no query was made" can be stated.
\<close>

datatype store_op =
  GetUser | CreateUser | UpdateUserTeam | GetTeam | AddTeamMember | RemoveTeamMember
  | GetClient | CreateAppointment | UpdateAppointment | GetAppointment | StorePdf | GetPdf

datatype table = Users | Teams | TeamMembers | Clients | Appointments

datatype event = Called store_op | Sql table

record storage =
  users :: "user list"
  teams :: "team list"
  teamMembers :: "team_member list"
  clients :: "client list"
  appointments :: "appointment list"
  users_id_seq :: int
  team_members_id_seq :: int
  appointments_id_seq :: int
  pdfStorage :: "number \<Rightarrow> bytes option"
  log :: "event list"

definition called :: "store_op \<Rightarrow> storage \<Rightarrow> storage" where
  "called f s = s\<lparr>log := log s @ [Called f]\<rparr>"

definition sql :: "table \<Rightarrow> storage \<Rightarrow> storage" where
  "sql t s = s\<lparr>log := log s @ [Sql t]\<rparr>"

section \<open>The query layer\<close>

text \<open>
  \<open>db.select().from(t).where(eq(t.id, v))\<close>: the rows whose key is \<open>v\<close>. The value
  is a parameter of the statement for an integer column; the database refuses one that
  is not an integer. (It also refuses an integer outside the 32-bit range of the
  column, which is not modelled: no row has such a key.)
\<close>

fun pg_integer :: "number \<Rightarrow> int option" where
  "pg_integer (Integer i) = Some i"
| "pg_integer _ = None"

definition where_eq :: "('r \<Rightarrow> int) \<Rightarrow> number \<Rightarrow> 'r list \<Rightarrow> error + 'r list" where
  "where_eq col v rows =
     (case pg_integer v of
        None \<Rightarrow> Inl DbError
      | Some i \<Rightarrow> Inr (filter (\<lambda>r. col r = i) rows))"

text \<open>The destructuring \<open>const [x] = rows\<close>: the first row, or \<open>undefined\<close>.\<close>

fun first :: "'r list \<Rightarrow> 'r option" where
  "first [] = None"
| "first (r # rs) = Some r"

text \<open>
  A \<open>serial\<close> key: the value the statement gives, or the next value of the table's
  sequence, which is then advanced whether or not the row is accepted (a statement
  refused for the type of a value is refused before that).
\<close>

definition serial :: "int option \<Rightarrow> int \<Rightarrow> int \<times> int" where
  "serial given seq = (case given of Some i \<Rightarrow> (i, seq) | None \<Rightarrow> (seq + 1, seq + 1))"

section \<open>Passwords\<close>

text \<open>
  \<open>buf.toString("hex")\<close> and \<open>Buffer.from(s, "hex")\<close>. Encoding writes two lower-case
  digits per byte; decoding reads pairs of hexadecimal digits, each code unit by its
  low byte, and stops at the first pair that is not one.
\<close>

definition hex_digit :: "nat \<Rightarrow> code_unit" where
  "hex_digit n = (if n < 10 then of_nat (48 + n) else of_nat (87 + n))"

definition toHex :: "bytes \<Rightarrow> jsstring" where
  "toHex bs = concat (map (\<lambda>b. [hex_digit (unat b div 16), hex_digit (unat b mod 16)]) bs)"

definition hex_value :: "code_unit \<Rightarrow> nat option" where
  "hex_value c =
     (let b = c mod 0x100
      in if 48 \<le> b \<and> b \<le> 57 then Some (unat b - 48)
         else if 97 \<le> b \<and> b \<le> 102 then Some (unat b - 87)
         else if 65 \<le> b \<and> b \<le> 70 then Some (unat b - 55)
         else None)"

fun fromHex :: "jsstring \<Rightarrow> bytes" where
  "fromHex (c # d # cs) =
     (case (hex_value c, hex_value d) of
        (Some h, Some l) \<Rightarrow> of_nat (16 * h + l) # fromHex cs
      | _ \<Rightarrow> [])"
| "fromHex _ = []"

text \<open>
  The crypto functions take a string as its UTF-8 encoding; a surrogate code unit that
  is not part of a pair is encoded as U+FFFD.
\<close>

definition utf8_code_point :: "nat \<Rightarrow> bytes" where
  "utf8_code_point n =
     (if n < 0x80 then [of_nat n]
      else if n < 0x800 then [of_nat (0xC0 + n div 0x40), of_nat (0x80 + n mod 0x40)]
      else if n < 0x10000 then
        [of_nat (0xE0 + n div 0x1000), of_nat (0x80 + n div 0x40 mod 0x40),
         of_nat (0x80 + n mod 0x40)]
      else
        [of_nat (0xF0 + n div 0x40000), of_nat (0x80 + n div 0x1000 mod 0x40),
         of_nat (0x80 + n div 0x40 mod 0x40), of_nat (0x80 + n mod 0x40)])"

definition high_surrogate :: "code_unit \<Rightarrow> bool" where
  "high_surrogate c = (0xD800 \<le> c \<and> c \<le> 0xDBFF)"

definition low_surrogate :: "code_unit \<Rightarrow> bool" where
  "low_surrogate c = (0xDC00 \<le> c \<and> c \<le> 0xDFFF)"

fun utf8 :: "jsstring \<Rightarrow> bytes" where
  "utf8 [] = []"
| "utf8 [c] =
     utf8_code_point (if high_surrogate c \<or> low_surrogate c then 0xFFFD else unat c)"
| "utf8 (c # d # cs) =
     (if high_surrogate c \<and> low_surrogate d then
        utf8_code_point (0x10000 + (unat c - 0xD800) * 0x400 + (unat d - 0xDC00)) @ utf8 cs
      else
        utf8_code_point (if high_surrogate c \<or> low_surrogate c then 0xFFFD else unat c)
        @ utf8 (d # cs))"

text \<open>
  \<open>scrypt(password, salt, keylen)\<close> is a parameter of the model: a function of the
  bytes of the password, the bytes of the salt and the length asked for.
\<close>

type_synonym scrypt = "bytes \<Rightarrow> bytes \<Rightarrow> nat \<Rightarrow> bytes"

text \<open>\<open>hashPassword\<close>; \<open>random\<close> are the 16 bytes \<open>randomBytes(16)\<close> returned.\<close>

definition hashPassword :: "scrypt \<Rightarrow> bytes \<Rightarrow> jsstring \<Rightarrow> jsstring" where
  "hashPassword scryptAsync random password' =
     (let salt = toHex random;
          buf = scryptAsync (utf8 password') (utf8 salt) 64
      in toHex buf @ str ''.'' @ salt)"

text \<open>\<open>stored.split(".")\<close>.\<close>

fun split :: "code_unit \<Rightarrow> jsstring \<Rightarrow> jsstring list" where
  "split sep [] = [[]]"
| "split sep (c # cs) =
     (if c = sep then [] # split sep cs
      else (case split sep cs of
              [] \<Rightarrow> [[c]]
            | x # xs \<Rightarrow> (c # x) # xs))"

text \<open>\<open>timingSafeEqual\<close> throws when the two buffers differ in length.\<close>

definition timingSafeEqual :: "bytes \<Rightarrow> bytes \<Rightarrow> error + bool" where
  "timingSafeEqual a b = (if length a \<noteq> length b then Inl RangeError else Inr (a = b))"

text \<open>
  \<open>comparePasswords\<close>. With no \<open>"."\<close> in \<open>stored\<close> the salt is \<open>undefined\<close>, which
  \<open>scrypt\<close> refuses.
\<close>

definition comparePasswords :: "scrypt \<Rightarrow> jsstring \<Rightarrow> jsstring \<Rightarrow> error + bool" where
  "comparePasswords scryptAsync supplied stored =
     (case split 46 stored of
        hashed # salt # _ \<Rightarrow>
          (let hashedBuf = fromHex hashed;
               suppliedBuf = scryptAsync (utf8 supplied) (utf8 salt) 64
           in timingSafeEqual hashedBuf suppliedBuf)
      | _ \<Rightarrow> Inl TypeError)"

section \<open>Operations of the storage object\<close>

text \<open>
  Every operation takes the storage object and returns its result (\<open>Inl\<close> for a
  rejected promise) with the storage object after it.
\<close>

subsection \<open>Users\<close>

record insert_user =
  iu_id :: "int option"
  iu_username :: jsstring
  iu_password :: jsstring
  iu_role :: jsstring
  iu_createdBy :: "int option"
  iu_teamId :: "int option"

definition getUser :: "number \<Rightarrow> storage \<Rightarrow> (error + user option) \<times> storage" where
  "getUser id' s =
     (let s1 = sql Users (called GetUser s)
      in case where_eq u_id id' (users s1) of
           Inl e \<Rightarrow> (Inl e, s1)
         | Inr rows \<Rightarrow> (Inr (first rows), s1))"

text \<open>
  \<open>createUser\<close>. The key is \<open>serial\<close> and a primary key, the user name is unique: a
  row that repeats either is refused.
\<close>

definition createUser ::
  "scrypt \<Rightarrow> bytes \<Rightarrow> insert_user \<Rightarrow> storage \<Rightarrow> (error + user) \<times> storage" where
  "createUser scryptAsync random insertUser s =
     (let hashedPassword = hashPassword scryptAsync random (iu_password insertUser);
          s1 = sql Users (called CreateUser s);
          (key, seq) = serial (iu_id insertUser) (users_id_seq s1);
          row = \<lparr>u_id = key, username = iu_username insertUser, password = hashedPassword,
                 role = iu_role insertUser, u_createdBy = iu_createdBy insertUser,
                 u_teamId = iu_teamId insertUser\<rparr>
      in if key \<in> set (map u_id (users s1)) \<or> username row \<in> set (map username (users s1))
         then (Inl DbError, s1\<lparr>users_id_seq := seq\<rparr>)
         else (Inr row, s1\<lparr>users := users s1 @ [row], users_id_seq := seq\<rparr>))"

text \<open>\<open>updateUserTeam(userId, teamId)\<close>, \<open>teamId\<close> a number or \<open>null\<close>.\<close>

definition updateUserTeam ::
  "number \<Rightarrow> number option \<Rightarrow> storage \<Rightarrow> (error + unit) \<times> storage" where
  "updateUserTeam userId teamId' s =
     (let s1 = sql Users (called UpdateUserTeam s)
      in case (pg_integer userId, map_option pg_integer teamId') of
           (None, _) \<Rightarrow> (Inl DbError, s1)
         | (Some u, Some None) \<Rightarrow> (Inl DbError, s1)
         | (Some u, None) \<Rightarrow>
             (Inr (), s1\<lparr>users := map (\<lambda>r. if u_id r = u then r\<lparr>u_teamId := None\<rparr> else r) (users s1)\<rparr>)
         | (Some u, Some (Some t)) \<Rightarrow>
             (Inr (), s1\<lparr>users := map (\<lambda>r. if u_id r = u then r\<lparr>u_teamId := Some t\<rparr> else r) (users s1)\<rparr>))"

subsection \<open>Teams\<close>

definition getTeam :: "number \<Rightarrow> storage \<Rightarrow> (error + team option) \<times> storage" where
  "getTeam id' s =
     (let s0 = called GetTeam s
      in if \<not> isInteger id' \<or> js_less id' 1 then (Inr None, s0)
         else let s1 = sql Teams s0
              in case where_eq t_id id' (teams s1) of
                   Inl e \<Rightarrow> (Inl e, s1)
                 | Inr rows \<Rightarrow> (Inr (first rows), s1))"

record insert_team_member =
  itm_id :: "int option"
  itm_teamId :: number
  itm_userId :: number
  itm_addedBy :: int
  itm_addedAt :: "jsstring option"

text \<open>
  \<open>addTeamMember\<close>; \<open>now\<close> is the database's clock, the default of \<open>added_at\<close>.
\<close>

definition addTeamMember ::
  "insert_team_member \<Rightarrow> jsstring \<Rightarrow> storage \<Rightarrow> (error + team_member) \<times> storage" where
  "addTeamMember insertTeamMember now s =
     (let s1 = sql TeamMembers (called AddTeamMember s);
          (key, seq) = serial (itm_id insertTeamMember) (team_members_id_seq s1)
      in case (pg_integer (itm_teamId insertTeamMember), pg_integer (itm_userId insertTeamMember)) of
           (Some t, Some u) \<Rightarrow>
             (let row = \<lparr>tm_id = key, tm_teamId = t, tm_userId = u,
                         tm_addedBy = itm_addedBy insertTeamMember,
                         tm_addedAt = (case itm_addedAt insertTeamMember of None \<Rightarrow> now | Some a \<Rightarrow> a)\<rparr>
              in if key \<in> set (map tm_id (teamMembers s1))
                 then (Inl DbError, s1\<lparr>team_members_id_seq := seq\<rparr>)
                 else (Inr row, s1\<lparr>teamMembers := teamMembers s1 @ [row], team_members_id_seq := seq\<rparr>))
         | _ \<Rightarrow> (Inl DbError, s1))"

definition removeTeamMember ::
  "number \<Rightarrow> number \<Rightarrow> storage \<Rightarrow> (error + unit) \<times> storage" where
  "removeTeamMember teamId' userId s = updateUserTeam userId None (called RemoveTeamMember s)"

subsection \<open>Clients\<close>

definition getClient :: "number \<Rightarrow> storage \<Rightarrow> (error + client option) \<times> storage" where
  "getClient id' s =
     (let s0 = called GetClient s
      in if \<not> isInteger id' \<or> js_less id' 1 then (Inr None, s0)
         else let s1 = sql Clients s0
              in case where_eq c_id id' (clients s1) of
                   Inl e \<Rightarrow> (Inl e, s1)
                 | Inr rows \<Rightarrow> (Inr (first rows), s1))"

subsection \<open>Appointments\<close>

text \<open>
  A field of an object that arrives from outside (\<open>req.body\<close>) or that is only partly
  filled in (\<open>Partial<Appointment>\<close>): the key is absent, or it carries a value of the
  column's type, or it carries a value its consumer refuses (the schema's \<open>parse\<close> for
  a new appointment, the database for an update).
\<close>

datatype 'a field = Absent | Given 'a | Malformed

record appointment_fields =
  f_id :: "int field"
  f_clientId :: "int field"
  f_teamId :: "int field"
  f_status :: "jsstring field"
  f_collectedBy :: "int field"
  f_approvedBy :: "int option field"
  f_pdfUrl :: "jsstring option field"
  f_bookingDetails :: "booking_details field"
  f_createdAt :: "jsstring field"

text \<open>The object spread \<open>{...a, ...b}\<close>: a key of \<open>b\<close> replaces the same key of \<open>a\<close>.\<close>

fun over :: "'a field \<Rightarrow> 'a field \<Rightarrow> 'a field" where
  "over a Absent = a"
| "over a b = b"

definition spread :: "appointment_fields \<Rightarrow> appointment_fields \<Rightarrow> appointment_fields" where
  "spread a b =
     \<lparr>f_id = over (f_id a) (f_id b), f_clientId = over (f_clientId a) (f_clientId b),
      f_teamId = over (f_teamId a) (f_teamId b), f_status = over (f_status a) (f_status b),
      f_collectedBy = over (f_collectedBy a) (f_collectedBy b),
      f_approvedBy = over (f_approvedBy a) (f_approvedBy b),
      f_pdfUrl = over (f_pdfUrl a) (f_pdfUrl b),
      f_bookingDetails = over (f_bookingDetails a) (f_bookingDetails b),
      f_createdAt = over (f_createdAt a) (f_createdAt b)\<rparr>"

text \<open>An appointment read from the table, as an object: every key is present.\<close>

definition fields_of :: "appointment \<Rightarrow> appointment_fields" where
  "fields_of a =
     \<lparr>f_id = Given (a_id a), f_clientId = Given (clientId a), f_teamId = Given (teamId a),
      f_status = Given (status a), f_collectedBy = Given (collectedBy a),
      f_approvedBy = Given (approvedBy a), f_pdfUrl = Given (pdfUrl a),
      f_bookingDetails = Given (bookingDetails a), f_createdAt = Given (createdAt a)\<rparr>"

text \<open>
  \<open>InsertAppointment\<close>, the result of \<open>insertAppointmentSchema.parse\<close>: the key is
  optional (it has a default), the nullable columns are optional, the others are
  required.
\<close>

record insert_appointment =
  ia_id :: "int option"
  ia_clientId :: int
  ia_teamId :: int
  ia_status :: jsstring
  ia_collectedBy :: int
  ia_approvedBy :: "int option"
  ia_pdfUrl :: "jsstring option"
  ia_bookingDetails :: booking_details
  ia_createdAt :: jsstring

fun required :: "'a field \<Rightarrow> 'a option" where
  "required (Given v) = Some v"
| "required _ = None"

fun optional :: "'a field \<Rightarrow> 'a option option" where
  "optional Absent = Some None"
| "optional (Given v) = Some (Some v)"
| "optional Malformed = None"

fun nullable :: "'a option field \<Rightarrow> 'a option option" where
  "nullable Absent = Some None"
| "nullable (Given v) = Some v"
| "nullable Malformed = None"

definition insertAppointmentSchema_parse :: "appointment_fields \<Rightarrow> error + insert_appointment" where
  "insertAppointmentSchema_parse b =
     (case
        Option.bind (optional (f_id b)) (\<lambda>i.
        Option.bind (required (f_clientId b)) (\<lambda>c.
        Option.bind (required (f_teamId b)) (\<lambda>t.
        Option.bind (required (f_status b)) (\<lambda>st.
        Option.bind (required (f_collectedBy b)) (\<lambda>cb.
        Option.bind (nullable (f_approvedBy b)) (\<lambda>ab.
        Option.bind (nullable (f_pdfUrl b)) (\<lambda>pu.
        Option.bind (required (f_bookingDetails b)) (\<lambda>bd.
        Option.bind (required (f_createdAt b)) (\<lambda>ca.
          Some \<lparr>ia_id = i, ia_clientId = c, ia_teamId = t, ia_status = st,
                ia_collectedBy = cb, ia_approvedBy = ab, ia_pdfUrl = pu,
                ia_bookingDetails = bd, ia_createdAt = ca\<rparr>)))))))))
      of None \<Rightarrow> Inl ZodError
       | Some v \<Rightarrow> Inr v)"

text \<open>
  \<open>createAppointment\<close>; \<open>now\<close> is \<open>new Date().toISOString()\<close> at the insertion. The
  key is a primary key: a row that repeats one is refused.
\<close>

definition createAppointment ::
  "insert_appointment \<Rightarrow> jsstring \<Rightarrow> storage \<Rightarrow> (error + appointment) \<times> storage" where
  "createAppointment insertAppointment now s =
     (let s1 = sql Appointments (called CreateAppointment s);
          (key, seq) = serial (ia_id insertAppointment) (appointments_id_seq s1);
          row = \<lparr>a_id = key, clientId = ia_clientId insertAppointment,
                 teamId = ia_teamId insertAppointment, status = ia_status insertAppointment,
                 collectedBy = ia_collectedBy insertAppointment,
                 approvedBy = ia_approvedBy insertAppointment,
                 pdfUrl = ia_pdfUrl insertAppointment,
                 bookingDetails = \<lparr>date = now\<rparr>,
                 createdAt = ia_createdAt insertAppointment\<rparr>
      in if key \<in> set (map a_id (appointments s1))
         then (Inl DbError, s1\<lparr>appointments_id_seq := seq\<rparr>)
         else (Inr row, s1\<lparr>appointments := appointments s1 @ [row], appointments_id_seq := seq\<rparr>))"

text \<open>
  \<open>db.update(appointments).set(update)\<close>: the columns whose key is present are
  assigned. The database refuses the statement when a value is not of its column's
  type. An object with no column at all is refused as well; the routes never pass
  one.
\<close>

fun put :: "'a field \<Rightarrow> 'a \<Rightarrow> 'a" where
  "put (Given v) old = v"
| "put _ old = old"

definition set_columns :: "appointment_fields \<Rightarrow> appointment \<Rightarrow> appointment" where
  "set_columns update r =
     \<lparr>a_id = put (f_id update) (a_id r), clientId = put (f_clientId update) (clientId r),
      teamId = put (f_teamId update) (teamId r), status = put (f_status update) (status r),
      collectedBy = put (f_collectedBy update) (collectedBy r),
      approvedBy = put (f_approvedBy update) (approvedBy r),
      pdfUrl = put (f_pdfUrl update) (pdfUrl r),
      bookingDetails = put (f_bookingDetails update) (bookingDetails r),
      createdAt = put (f_createdAt update) (createdAt r)\<rparr>"

definition refused :: "appointment_fields \<Rightarrow> bool" where
  "refused update =
     (f_id update = Malformed \<or> f_clientId update = Malformed \<or> f_teamId update = Malformed
      \<or> f_status update = Malformed \<or> f_collectedBy update = Malformed
      \<or> f_approvedBy update = Malformed \<or> f_pdfUrl update = Malformed
      \<or> f_bookingDetails update = Malformed \<or> f_createdAt update = Malformed
      \<or> (f_id update = Absent \<and> f_clientId update = Absent \<and> f_teamId update = Absent
         \<and> f_status update = Absent \<and> f_collectedBy update = Absent
         \<and> f_approvedBy update = Absent \<and> f_pdfUrl update = Absent
         \<and> f_bookingDetails update = Absent \<and> f_createdAt update = Absent))"

text \<open>
  The primary key: an update that gives the row with key \<open>i\<close> the key of another row
  is refused.
\<close>

definition key_clash :: "int \<Rightarrow> int field \<Rightarrow> appointment list \<Rightarrow> bool" where
  "key_clash i new rows =
     (case new of
        Given j \<Rightarrow> i \<in> set (map a_id rows) \<and> j \<in> set (map a_id (filter (\<lambda>r. a_id r \<noteq> i) rows))
      | _ \<Rightarrow> False)"

definition updateAppointment ::
  "number \<Rightarrow> appointment_fields \<Rightarrow> storage \<Rightarrow> (error + appointment option) \<times> storage" where
  "updateAppointment id' update s =
     (let s0 = called UpdateAppointment s
      in if \<not> isInteger id' \<or> js_less id' 1 then (Inl InvalidAppointmentId, s0)
         else let s1 = sql Appointments s0
              in case pg_integer id' of
                   None \<Rightarrow> (Inl DbError, s1)
                 | Some i \<Rightarrow>
                     if refused update \<or> key_clash i (f_id update) (appointments s1)
                     then (Inl DbError, s1)
                     else
                       (Inr (first (map (set_columns update) (filter (\<lambda>r. a_id r = i) (appointments s1)))),
                        s1\<lparr>appointments :=
                             map (\<lambda>r. if a_id r = i then set_columns update r else r) (appointments s1)\<rparr>))"

definition getAppointment :: "number \<Rightarrow> storage \<Rightarrow> (error + appointment option) \<times> storage" where
  "getAppointment id' s =
     (let s0 = called GetAppointment s
      in if \<not> isInteger id' \<or> js_less id' 1 then (Inr None, s0)
         else let s1 = sql Appointments s0
              in case where_eq a_id id' (appointments s1) of
                   Inl e \<Rightarrow> (Inl e, s1)
                 | Inr rows \<Rightarrow> (Inr (first rows), s1))"

subsection \<open>The PDF map\<close>

definition storePdf :: "number \<Rightarrow> bytes \<Rightarrow> storage \<Rightarrow> storage" where
  "storePdf appointmentId pdfBuffer s =
     (let s0 = called StorePdf s
      in s0\<lparr>pdfStorage := (pdfStorage s0)(appointmentId \<mapsto> pdfBuffer)\<rparr>)"

definition getPdf :: "number \<Rightarrow> storage \<Rightarrow> bytes option \<times> storage" where
  "getPdf appointmentId s = (pdfStorage s appointmentId, called GetPdf s)"

text \<open>
  The storage object as its constructor leaves it, over the tables \<open>db\<close>: an empty
  PDF map. (The constructor also starts \<open>ensureAdminUser\<close>, which concerns the
  \<open>users\<close> table only and is left out.)
\<close>

definition new_storage :: "storage \<Rightarrow> storage" where
  "new_storage db = db\<lparr>pdfStorage := Map.empty, log := []\<rparr>"

section \<open>The routes (server/routes.ts)\<close>

text \<open>
  \<open>parseInt(id, 10)\<close>: white space is skipped, then an optional sign, then decimal
  digits are read as far as they go; with no digit the result is \<open>NaN\<close>. The result
  is the integer the digits denote: its rounding to a double is not modelled.
\<close>

definition isWhiteSpace :: "code_unit \<Rightarrow> bool" where
  "isWhiteSpace c =
     (c \<in> {0x09, 0x0A, 0x0B, 0x0C, 0x0D, 0x20, 0xA0, 0x1680, 0x2028, 0x2029, 0x202F,
           0x205F, 0x3000, 0xFEFF}
      \<or> (0x2000 \<le> c \<and> c \<le> 0x200A))"

definition isDigit :: "code_unit \<Rightarrow> bool" where
  "isDigit c = (0x30 \<le> c \<and> c \<le> 0x39)"

definition digits_value :: "jsstring \<Rightarrow> int" where
  "digits_value ds = foldl (\<lambda>n c. 10 * n + (uint c - 0x30)) 0 ds"

definition parseInt10 :: "jsstring \<Rightarrow> number" where
  "parseInt10 s =
     (let t = dropWhile isWhiteSpace s;
          (sign, u) = (case t of
                         [] \<Rightarrow> (1, [])
                       | c # cs \<Rightarrow> if c = 0x2D then (- 1, cs) else if c = 0x2B then (1, cs) else (1, t));
          ds = takeWhile isDigit u
      in if ds = [] then NaN else Integer (sign * digits_value ds))"

definition parseId :: "jsstring \<Rightarrow> number option" where
  "parseId id' = (let parsed = parseInt10 id' in if parsed = NaN then None else Some parsed)"

text \<open>
  A number in a template string. The digits of a fraction are not modelled: the routes
  format only what \<open>parseId\<close> returned.
\<close>

fun decimal :: "nat \<Rightarrow> jsstring" where
  "decimal n = (if n < 10 then [of_nat (0x30 + n)] else decimal (n div 10) @ [of_nat (0x30 + n mod 10)])"

fun toString :: "number \<Rightarrow> jsstring" where
  "toString (Integer i) = (if i < 0 then 0x2D # decimal (nat (- i)) else decimal (nat i))"
| "toString NaN = str ''NaN''"
| "toString PosInfinity = str ''Infinity''"
| "toString NegInfinity = str ''-Infinity''"

text \<open>
  What a handler does with a request: it sends a status, a status with a text, a status
  with a JSON body, or a file; or its promise is rejected and nothing is sent.
\<close>

datatype json =
  JAppointment appointment
  | JUpdated "appointment option"
  | JTeamMember team_member
  | JMessage jsstring

datatype response =
  SendStatus nat
  | Send nat jsstring
  | Json nat json
  | SendFile jsstring bytes
  | Thrown error

text \<open>
  The caller is \<open>req.user\<close>, \<open>None\<close> when \<open>req.isAuthenticated()\<close> is false.

  \<open>POST /api/appointments\<close>. The clock is read twice, by the handler and by
  \<open>createAppointment\<close>.
\<close>

definition post_appointments ::
  "user option \<Rightarrow> appointment_fields \<Rightarrow> jsstring \<Rightarrow> jsstring \<Rightarrow> storage \<Rightarrow> response \<times> storage" where
  "post_appointments caller body now now' s =
     (case caller of
        None \<Rightarrow> (SendStatus 401, s)
      | Some u \<Rightarrow>
          if role u \<noteq> str ''collector'' then (SendStatus 403, s)
          else
            (case insertAppointmentSchema_parse
                    (body\<lparr>f_collectedBy := Given (u_id u), f_status := Given (str ''pending''),
                          f_createdAt := Given now\<rparr>) of
               Inl e \<Rightarrow> (Thrown e, s)
             | Inr appointmentData \<Rightarrow>
                 (case createAppointment appointmentData now' s of
                    (Inl e, s') \<Rightarrow> (Thrown e, s')
                  | (Inr appointment, s') \<Rightarrow> (Json 201 (JAppointment appointment), s'))))"

text \<open>\<open>PATCH /api/appointments/:id\<close>.\<close>

definition patch_appointment ::
  "user option \<Rightarrow> jsstring \<Rightarrow> appointment_fields \<Rightarrow> storage \<Rightarrow> response \<times> storage" where
  "patch_appointment caller param body s =
     (case caller of
        None \<Rightarrow> (SendStatus 401, s)
      | Some u \<Rightarrow>
          if role u \<noteq> str ''approver'' then (SendStatus 403, s)
          else
            (case parseId param of
               None \<Rightarrow> (Send 400 (str ''Invalid ID''), s)
             | Some id' \<Rightarrow>
                 (case getAppointment id' s of
                    (Inl e, s1) \<Rightarrow> (Thrown e, s1)
                  | (Inr None, s1) \<Rightarrow> (SendStatus 404, s1)
                  | (Inr (Some appointment), s1) \<Rightarrow>
                      (case updateAppointment id'
                              ((spread (fields_of appointment) body)
                                 \<lparr>f_approvedBy := Given (Some (u_id u)),
                                  f_status := Given (str ''approved'')\<rparr>) s1 of
                         (Inl e, s2) \<Rightarrow> (Thrown e, s2)
                       | (Inr updated, s2) \<Rightarrow> (Json 200 (JUpdated updated), s2)))))"

text \<open>
  \<open>POST /api/appointments/:id/pdf\<close>. The upload is the part named \<open>pdf\<close>, with its
  MIME type and content; \<open>upload.single\<close> keeps it only when the type is
  \<open>application/pdf\<close>.
\<close>

definition upload_single :: "(jsstring \<times> bytes) option \<Rightarrow> bytes option" where
  "upload_single part =
     (case part of
        None \<Rightarrow> None
      | Some (mimetype, buffer) \<Rightarrow> if mimetype = str ''application/pdf'' then Some buffer else None)"

definition post_appointment_pdf ::
  "user option \<Rightarrow> jsstring \<Rightarrow> (jsstring \<times> bytes) option \<Rightarrow> storage \<Rightarrow> response \<times> storage" where
  "post_appointment_pdf caller param part s =
     (case caller of
        None \<Rightarrow> (SendStatus 401, s)
      | Some u \<Rightarrow>
          if role u \<noteq> str ''approver'' then (SendStatus 403, s)
          else
            (case parseId param of
               None \<Rightarrow> (Send 400 (str ''Invalid ID''), s)
             | Some id' \<Rightarrow>
                 (case getAppointment id' s of
                    (Inl e, s1) \<Rightarrow> (Thrown e, s1)
                  | (Inr None, s1) \<Rightarrow> (SendStatus 404, s1)
                  | (Inr (Some appointment), s1) \<Rightarrow>
                      (case upload_single part of
                         None \<Rightarrow> (Send 400 (str ''No PDF file uploaded''), s1)
                       | Some buffer \<Rightarrow>
                           (let pdfUrl' = str ''/api/appointments/'' @ toString id' @ str ''/download-pdf'';
                                s2 = storePdf id' buffer s1
                            in case updateAppointment id'
                                      ((fields_of appointment)\<lparr>f_pdfUrl := Given (Some pdfUrl')\<rparr>) s2 of
                                 (Inl e, s3) \<Rightarrow> (Thrown e, s3)
                               | (Inr updated, s3) \<Rightarrow> (Json 200 (JUpdated updated), s3))))))"

text \<open>\<open>GET /api/appointments/:id/download-pdf\<close>.\<close>

definition get_download_pdf :: "user option \<Rightarrow> jsstring \<Rightarrow> storage \<Rightarrow> response \<times> storage" where
  "get_download_pdf caller param s =
     (case caller of
        None \<Rightarrow> (SendStatus 401, s)
      | Some u \<Rightarrow>
          (case parseId param of
             None \<Rightarrow> (Send 400 (str ''Invalid ID''), s)
           | Some id' \<Rightarrow>
               (case getAppointment id' s of
                  (Inl e, s1) \<Rightarrow> (Thrown e, s1)
                | (Inr None, s1) \<Rightarrow> (SendStatus 404, s1)
                | (Inr (Some appointment), s1) \<Rightarrow>
                    (case getPdf id' s1 of
                       (None, s2) \<Rightarrow> (SendStatus 404, s2)
                     | (Some pdfContent, s2) \<Rightarrow>
                         (SendFile (str ''attachment; filename=appointment-'' @ toString id' @ str ''.pdf'')
                            pdfContent, s2)))))"

text \<open>\<open>GET /api/appointments/:id\<close>.\<close>

definition get_appointment :: "user option \<Rightarrow> jsstring \<Rightarrow> storage \<Rightarrow> response \<times> storage" where
  "get_appointment caller param s =
     (case caller of
        None \<Rightarrow> (SendStatus 401, s)
      | Some u \<Rightarrow>
          (case parseId param of
             None \<Rightarrow> (Send 400 (str ''Invalid ID''), s)
           | Some id' \<Rightarrow>
               (case getAppointment id' s of
                  (Inl e, s1) \<Rightarrow> (Thrown e, s1)
                | (Inr None, s1) \<Rightarrow> (SendStatus 404, s1)
                | (Inr (Some appointment), s1) \<Rightarrow> (Json 200 (JAppointment appointment), s1))))"

text \<open>
  \<open>POST /api/teams/members\<close>, with the \<open>teamId\<close> and \<open>userId\<close> of the body; \<open>now\<close> is
  the database's clock.
\<close>

definition post_teams_members ::
  "user option \<Rightarrow> number \<Rightarrow> number \<Rightarrow> jsstring \<Rightarrow> storage \<Rightarrow> response \<times> storage" where
  "post_teams_members caller teamId' userId now s =
     (case caller of
        None \<Rightarrow> (SendStatus 401, s)
      | Some u \<Rightarrow>
          if role u \<noteq> str ''admin'' then (SendStatus 403, s)
          else if teamId' = Integer 0 then
            (case removeTeamMember teamId' userId s of
               (Inl e, s1) \<Rightarrow> (Thrown e, s1)
             | (Inr _, s1) \<Rightarrow> (Json 200 (JMessage (str ''Member removed from team'')), s1))
          else
            (case addTeamMember
                    \<lparr>itm_id = None, itm_teamId = teamId', itm_userId = userId,
                     itm_addedBy = u_id u, itm_addedAt = None\<rparr> now s of
               (Inl e, s1) \<Rightarrow> (Thrown e, s1)
             | (Inr teamMember, s1) \<Rightarrow>
                 (case updateUserTeam userId (Some teamId') s1 of
                    (Inl e, s2) \<Rightarrow> (Thrown e, s2)
                  | (Inr _, s2) \<Rightarrow> (Json 201 (JTeamMember teamMember), s2))))"







section \<open>Notions used in the statements\<close>




text \<open>A run of \<open>storePdf\<close> calls, in order.\<close>

fun storePdfs :: "(number \<times> bytes) list \<Rightarrow> storage \<Rightarrow> storage" where
  "storePdfs [] s = s"
| "storePdfs ((appointmentId, pdfBuffer) # rest) s = storePdfs rest (storePdf appointmentId pdfBuffer s)"

subsection \<open>Concrete data\<close>

text \<open>
  A collector, an approver, two user records as \<open>createUser\<close> receives them, and a few
  states of the storage object, for the concrete instances below.
\<close>

definition alice :: user where
  "alice = \<lparr>u_id = 2, username = str ''alice'', password = str ''-'', role = str ''collector'',
            u_createdBy = Some 1, u_teamId = Some 1\<rparr>"

definition bob :: user where
  "bob = \<lparr>u_id = 3, username = str ''bob'', password = str ''-'', role = str ''approver'',
          u_createdBy = Some 1, u_teamId = Some 1\<rparr>"

definition carol :: insert_user where
  "carol = \<lparr>iu_id = None, iu_username = str ''carol'', iu_password = str ''p1'',
            iu_role = str ''collector'', iu_createdBy = Some 1, iu_teamId = Some 1\<rparr>"

definition ghost :: insert_user where
  "ghost = \<lparr>iu_id = Some (- 1), iu_username = str ''ghost'', iu_password = str ''secret'',
            iu_role = str ''collector'', iu_createdBy = Some 1, iu_teamId = Some 1\<rparr>"

definition empty_storage :: storage where
  "empty_storage =
     \<lparr>users = [], teams = [], teamMembers = [], clients = [], appointments = [],
      users_id_seq = 0, team_members_id_seq = 0, appointments_id_seq = 0,
      pdfStorage = Map.empty, log = []\<rparr>"

definition first_appointment :: appointment where
  "first_appointment =
     \<lparr>a_id = 1, clientId = 1, teamId = 1, status = str ''pending'', collectedBy = 2,
      approvedBy = None, pdfUrl = None, bookingDetails = \<lparr>date = str ''2025-01-01''\<rparr>,
      createdAt = str ''2025-01-01''\<rparr>"

definition one_appointment :: storage where
  "one_appointment = empty_storage\<lparr>appointments := [first_appointment], appointments_id_seq := 1\<rparr>"


text \<open>
  A request body with no key, and one that also supplies the fields the server sets
  itself.
\<close>

definition no_fields :: appointment_fields where
  "no_fields =
     \<lparr>f_id = Absent, f_clientId = Absent, f_teamId = Absent, f_status = Absent,
      f_collectedBy = Absent, f_approvedBy = Absent, f_pdfUrl = Absent,
      f_bookingDetails = Absent, f_createdAt = Absent\<rparr>"

definition forged_body :: appointment_fields where
  "forged_body =
     no_fields\<lparr>f_clientId := Given 1, f_teamId := Given 1, f_status := Given (str ''approved''),
               f_collectedBy := Given 99, f_approvedBy := Given (Some 99),
               f_bookingDetails := Given \<lparr>date = str ''1999-12-31''\<rparr>\<rparr>"




text \<open>
  A key derivation function that returns the number of bytes asked for; it only
  serves to instantiate the \<open>scrypt\<close> parameter in a concrete instance.
\<close>

definition padding :: scrypt where
  "padding pw salt keylen = take keylen (pw @ salt @ replicate keylen 0)"

text \<open>The function that returns zero bytes, of which only the length is right.\<close>

definition zeros :: scrypt where
  "zeros pw salt keylen = replicate keylen 0"

section \<open>Lemmas\<close>

lemma called_fields [simp]:
  "users (called f s) = users s"
  "teams (called f s) = teams s"
  "teamMembers (called f s) = teamMembers s"
  "clients (called f s) = clients s"
  "appointments (called f s) = appointments s"
  "users_id_seq (called f s) = users_id_seq s"
  "team_members_id_seq (called f s) = team_members_id_seq s"
  "appointments_id_seq (called f s) = appointments_id_seq s"
  "pdfStorage (called f s) = pdfStorage s"
  "log (called f s) = log s @ [Called f]"
  by (simp_all add: called_def)

lemma sql_fields [simp]:
  "users (sql t s) = users s"
  "teams (sql t s) = teams s"
  "teamMembers (sql t s) = teamMembers s"
  "clients (sql t s) = clients s"
  "appointments (sql t s) = appointments s"
  "users_id_seq (sql t s) = users_id_seq s"
  "team_members_id_seq (sql t s) = team_members_id_seq s"
  "appointments_id_seq (sql t s) = appointments_id_seq s"
  "pdfStorage (sql t s) = pdfStorage s"
  "log (sql t s) = log s @ [Sql t]"
  by (simp_all add: sql_def)

lemma storePdf_fields [simp]:
  "users (storePdf i b s) = users s"
  "teamMembers (storePdf i b s) = teamMembers s"
  "appointments (storePdf i b s) = appointments s"
  "pdfStorage (storePdf i b s) = (pdfStorage s)(i \<mapsto> b)"
  "log (storePdf i b s) = log s @ [Called StorePdf]"
  by (simp_all add: storePdf_def Let_def)

lemma getAppointment_appointments [simp]:
  "appointments (snd (getAppointment i s)) = appointments s"
  by (simp add: getAppointment_def Let_def split: sum.splits)






lemma set_columns_simps [simp]:
  "a_id (set_columns u r) = put (f_id u) (a_id r)"
  "status (set_columns u r) = put (f_status u) (status r)"
  "approvedBy (set_columns u r) = put (f_approvedBy u) (approvedBy r)"
  "collectedBy (set_columns u r) = put (f_collectedBy u) (collectedBy r)"
  "pdfUrl (set_columns u r) = put (f_pdfUrl u) (pdfUrl r)"
  "bookingDetails (set_columns u r) = put (f_bookingDetails u) (bookingDetails r)"
  by (simp_all add: set_columns_def)


lemma updateAppointment_cases:
  obtains (invalid) "\<not> isInteger n \<or> js_less n 1"
      "updateAppointment n u s = (Inl InvalidAppointmentId, called UpdateAppointment s)"
  | (refused) i where "n = Integer i" "1 \<le> i" "refused u \<or> key_clash i (f_id u) (appointments s)"
      "updateAppointment n u s = (Inl DbError, sql Appointments (called UpdateAppointment s))"
  | (updated) i where "n = Integer i" "1 \<le> i" "\<not> refused u" "\<not> key_clash i (f_id u) (appointments s)"
      "updateAppointment n u s =
        (Inr (first (map (set_columns u) (filter (\<lambda>r. a_id r = i) (appointments s)))),
         (sql Appointments (called UpdateAppointment s))
           \<lparr>appointments := map (\<lambda>r. if a_id r = i then set_columns u r else r) (appointments s)\<rparr>)"
proof (cases n)
  case (Integer i)
  show thesis
  proof (cases "i < 1")
    case True
    with Integer invalid show thesis by (simp add: updateAppointment_def)
  next
    case False
    show thesis
    proof (cases "refused u \<or> key_clash i (f_id u) (appointments s)")
      case True
      with Integer False refused[of i] show thesis by (simp add: updateAppointment_def Let_def)
    next
      case no: False
      with Integer False updated[of i] show thesis by (simp add: updateAppointment_def Let_def)
    qed
  qed
qed (use invalid in \<open>simp_all add: updateAppointment_def\<close>)

lemma createAppointment_cases:
  obtains (clash) "fst (serial (ia_id ia) (appointments_id_seq s)) \<in> set (map a_id (appointments s))"
     "fst (createAppointment ia now s) = Inl DbError"
     "appointments (snd (createAppointment ia now s)) = appointments s"
     "pdfStorage (snd (createAppointment ia now s)) = pdfStorage s"
  | (inserted) row where "fst (serial (ia_id ia) (appointments_id_seq s)) \<notin> set (map a_id (appointments s))"
     "row = \<lparr>a_id = fst (serial (ia_id ia) (appointments_id_seq s)), clientId = ia_clientId ia,
                 teamId = ia_teamId ia, status = ia_status ia,
                 collectedBy = ia_collectedBy ia,
                 approvedBy = ia_approvedBy ia,
                 pdfUrl = ia_pdfUrl ia,
                 bookingDetails = \<lparr>date = now\<rparr>,
                 createdAt = ia_createdAt ia\<rparr>"
     "fst (createAppointment ia now s) = Inr row"
     "appointments (snd (createAppointment ia now s)) = appointments s @ [row]"
     "pdfStorage (snd (createAppointment ia now s)) = pdfStorage s"
proof -
  obtain key seq where k: "serial (ia_id ia) (appointments_id_seq s) = (key, seq)"
    by (cases "serial (ia_id ia) (appointments_id_seq s)")
  show thesis
  proof (cases "key \<in> set (map a_id (appointments s))")
    case True
    with k clash show thesis by (simp add: createAppointment_def Let_def)
  next
    case False
    with k inserted show thesis by (simp add: createAppointment_def Let_def)
  qed
qed











lemma updateUserTeam_frame [simp]:
  "appointments (snd (updateUserTeam u t s)) = appointments s"
  "teamMembers (snd (updateUserTeam u t s)) = teamMembers s"
  "pdfStorage (snd (updateUserTeam u t s)) = pdfStorage s"
  by (simp_all add: updateUserTeam_def Let_def split: option.splits)

lemma removeTeamMember_frame [simp]:
  "appointments (snd (removeTeamMember t u s)) = appointments s"
  "teamMembers (snd (removeTeamMember t u s)) = teamMembers s"
  "pdfStorage (snd (removeTeamMember t u s)) = pdfStorage s"
  by (simp_all add: removeTeamMember_def)

lemma addTeamMember_frame [simp]:
  "appointments (snd (addTeamMember m now s)) = appointments s"
  "pdfStorage (snd (addTeamMember m now s)) = pdfStorage s"
  "users (snd (addTeamMember m now s)) = users s"
  by (simp_all add: addTeamMember_def Let_def split: option.splits prod.splits)

lemma getPdf_frame [simp]:
  "appointments (snd (getPdf n s)) = appointments s"
  "pdfStorage (snd (getPdf n s)) = pdfStorage s"
  by (simp_all add: getPdf_def)

lemma getAppointment_frameD:
  "getAppointment n s = (r, s1) \<Longrightarrow> appointments s1 = appointments s"
  using getAppointment_appointments[of n s] by simp

lemma addTeamMember_frameD:
  "addTeamMember m now s = (r, s1) \<Longrightarrow> appointments s1 = appointments s"
  using addTeamMember_frame(1)[of m now s] by simp

lemma updateUserTeam_frameD:
  "updateUserTeam u t s = (r, s1) \<Longrightarrow> appointments s1 = appointments s"
  using updateUserTeam_frame(1)[of u t s] by simp

lemma removeTeamMember_frameD:
  "removeTeamMember t u s = (r, s1) \<Longrightarrow> appointments s1 = appointments s"
  using removeTeamMember_frame(1)[of t u s] by simp

lemma get_appointment_frame [simp]:
  "appointments (snd (get_appointment caller param s)) = appointments s"
  by (auto simp: get_appointment_def split: option.splits prod.splits sum.splits
      dest: getAppointment_frameD)

lemma get_download_pdf_frame [simp]:
  "appointments (snd (get_download_pdf caller param s)) = appointments s"
  by (auto simp: get_download_pdf_def getPdf_def split: option.splits prod.splits sum.splits
      dest: getAppointment_frameD)

lemma post_teams_members_frame [simp]:
  "appointments (snd (post_teams_members caller t u now s)) = appointments s"
  by (auto simp: post_teams_members_def split: option.splits prod.splits sum.splits
      dest!: addTeamMember_frameD updateUserTeam_frameD removeTeamMember_frameD)
















lemma first_filter_Some:
  assumes "first (filter P rows) = Some a"
  shows "a \<in> set rows \<and> P a"
proof -
  from assms obtain rs where "filter P rows = a # rs" by (cases "filter P rows") auto
  then have "a \<in> set (filter P rows)" by simp
  then show ?thesis by simp
qed

lemma getAppointment_found:
  assumes "fst (getAppointment n s) = Inr (Some a)"
  obtains i where "n = Integer i" "1 \<le> i" "a \<in> set (appointments s)" "a_id a = i"
    "first (filter (\<lambda>r. a_id r = i) (appointments s)) = Some a"
    "getAppointment n s = (Inr (Some a), sql Appointments (called GetAppointment s))"
proof (cases n)
  case (Integer i)
  with assms have ge: "1 \<le> i"
    by (auto simp: getAppointment_def Let_def split: if_splits)
  with assms Integer have f: "first (filter (\<lambda>r. a_id r = i) (appointments s)) = Some a"
    by (auto simp: getAppointment_def Let_def where_eq_def split: if_splits)
  with Integer ge have g: "getAppointment n s = (Inr (Some a), sql Appointments (called GetAppointment s))"
    by (simp add: getAppointment_def Let_def where_eq_def)
  from first_filter_Some[OF f] Integer ge f g that show thesis by blast
qed (use assms in \<open>auto simp: getAppointment_def Let_def split: if_splits\<close>)

lemma parse_Inr:
  assumes "insertAppointmentSchema_parse b = Inr ia"
  shows "required (f_status b) = Some (ia_status ia)" "required (f_collectedBy b) = Some (ia_collectedBy ia)"
  using assms
  by (auto simp: insertAppointmentSchema_parse_def split: option.splits Option.bind_splits)

lemma storePdfs_other:
  "i \<notin> fst ` set puts \<Longrightarrow> pdfStorage (storePdfs puts s) i = pdfStorage s i"
  by (induction puts arbitrary: s) auto

lemma guarded_getters:
  assumes "\<not> isInteger n \<or> js_less n 1"
  shows "getTeam n s = (Inr None, called GetTeam s)"
    and "getClient n s = (Inr None, called GetClient s)"
    and "getAppointment n s = (Inr None, called GetAppointment s)"
  using assms by (simp_all add: getTeam_def getClient_def getAppointment_def Let_def)

lemma all_nibbles: "list_all (\<lambda>n. hex_value (hex_digit n) = Some n \<and> hex_digit n \<noteq> 46) [0..<16]"
  by code_simp

lemma hex_value_hex_digit: "n < 16 \<Longrightarrow> hex_value (hex_digit n) = Some n"
  using all_nibbles by (simp add: list_all_iff)

lemma hex_digit_not_dot: "n < 16 \<Longrightarrow> hex_digit n \<noteq> 46"
  using all_nibbles by (simp add: list_all_iff)

lemma byte_nibbles: "unat (b :: byte) div 16 < 16" "unat b mod 16 < 16"
  using unsigned_less[of b, where ?'a = nat] by simp_all

lemma fromHex_toHex: "fromHex (toHex bs) = bs"
  by (induction bs) (simp_all add: toHex_def hex_value_hex_digit byte_nibbles)

lemma dot_notin_toHex: "46 \<notin> set (toHex bs)"
  using hex_digit_not_dot by (auto simp: toHex_def byte_nibbles)

lemma length_toHex: "length (toHex bs) = 2 * length bs"
  by (induction bs) (simp_all add: toHex_def)

lemma split_no_sep: "sep \<notin> set xs \<Longrightarrow> split sep xs = [xs]"
  by (induction xs) auto

lemma split_at_sep: "sep \<notin> set xs \<Longrightarrow> split sep (xs @ sep # ys) = xs # split sep ys"
  by (induction xs) auto

lemma split_stored: "split 46 (toHex k @ str ''.'' @ toHex r) = [toHex k, toHex r]"
  using split_at_sep[OF dot_notin_toHex, of k "toHex r"] split_no_sep[OF dot_notin_toHex, of r]
  by (simp add: str_def)

lemma comparePasswords_hashPassword:
  "comparePasswords scryptAsync supplied (hashPassword scryptAsync random plaintext)
     = timingSafeEqual (scryptAsync (utf8 plaintext) (utf8 (toHex random)) 64)
                       (scryptAsync (utf8 supplied) (utf8 (toHex random)) 64)"
  by (simp add: comparePasswords_def hashPassword_def Let_def split_stored fromHex_toHex)

lemma length_hashPassword:
  "length (hashPassword scryptAsync random plaintext)
     = 2 * length (scryptAsync (utf8 plaintext) (utf8 (toHex random)) 64) + 1 + 2 * length random"
  by (simp add: hashPassword_def Let_def length_toHex str_def)

lemma utf8_unpaired: "utf8 [0xD800] = utf8 [0xDBFF]"
  by (simp add: high_surrogate_def low_surrogate_def)

lemma createUser_Inr:
  assumes "createUser scryptAsync random insertUser s = (Inr row, s')"
  shows "password row = hashPassword scryptAsync random (iu_password insertUser)"
    and "users s' = users s @ [row]"
proof -
  obtain key seq where k: "serial (iu_id insertUser) (users_id_seq s) = (key, seq)"
    by (cases "serial (iu_id insertUser) (users_id_seq s)")
  with assms show "password row = hashPassword scryptAsync random (iu_password insertUser)"
    and "users s' = users s @ [row]"
    by (auto simp: createUser_def Let_def split: if_splits)
qed

lemma carol_created:
  "fst (createUser padding (replicate 16 7) carol empty_storage)
     = Inr \<lparr>u_id = 1, username = str ''carol'',
            password = hashPassword padding (replicate 16 7) (str ''p1''),
            role = str ''collector'', u_createdBy = Some 1, u_teamId = Some 1\<rparr>"
  by (simp add: createUser_def carol_def empty_storage_def serial_def Let_def)

lemma toHex_inj: "toHex a = toHex b \<Longrightarrow> a = b"
  using fromHex_toHex by metis

lemma drop_hashPassword:
  assumes "length (scryptAsync (utf8 plaintext) (utf8 (toHex random)) 64) = 64"
  shows "drop 129 (hashPassword scryptAsync random plaintext) = toHex random"
  using assms by (simp add: hashPassword_def Let_def length_toHex str_def)

lemmas eval_defs = parseId_def parseInt10_def isWhiteSpace_def isDigit_def digits_value_def str_def
  getAppointment_def Let_def one_appointment_def empty_storage_def first_appointment_def where_eq_def
  getPdf_def called_def sql_def alice_def bob_def



section \<open>The claims\<close>

subsection \<open>C1: approved is absorbing when requests are handled one at a time\<close>




subsection \<open>C2: creation sets status and collectedBy\<close>

text \<open>
  Claim C2. For a caller whose role is \<open>collector\<close>, \<open>POST /api/appointments\<close> gives
  the same result whatever the body holds under \<open>status\<close> and \<open>collectedBy\<close>; and
  either it answers 201 with the appointment it added to the table, whose status is
  \<open>pending\<close> and whose \<open>collectedBy\<close> is the caller's id, or the request fails and the
  table is unchanged. It answers 201 exactly when the body, with the three fields the
  handler sets, passes the schema and the key of the new row is not taken.
\<close>

theorem post_appointments_server_fields:
  assumes "role u = str ''collector''"
  shows "post_appointments (Some u) (body\<lparr>f_status := st, f_collectedBy := cb\<rparr>) now now' s
           = post_appointments (Some u) body now now' s
       \<and> ((\<exists>a s'. post_appointments (Some u) body now now' s = (Json 201 (JAppointment a), s')
                \<and> status a = pending \<and> collectedBy a = u_id u
                \<and> appointments s' = appointments s @ [a])
          \<or> (\<exists>e s'. post_appointments (Some u) body now now' s = (Thrown e, s')
                \<and> appointments s' = appointments s))
       \<and> ((\<exists>a s'. post_appointments (Some u) body now now' s = (Json 201 (JAppointment a), s'))
          = (\<exists>d. insertAppointmentSchema_parse
                    (body\<lparr>f_collectedBy := Given (u_id u), f_status := Given (str ''pending''),
                          f_createdAt := Given now\<rparr>) = Inr d
                 \<and> fst (serial (ia_id d) (appointments_id_seq s)) \<notin> set (map a_id (appointments s))))"
proof -
  define b where "b = body\<lparr>f_collectedBy := Given (u_id u), f_status := Given (str ''pending''),
                          f_createdAt := Given now\<rparr>"
  have same: "post_appointments (Some u) (body\<lparr>f_status := st, f_collectedBy := cb\<rparr>) now now' s
           = post_appointments (Some u) body now now' s"
    by (simp add: post_appointments_def)
  have rest: "((\<exists>a s'. post_appointments (Some u) body now now' s = (Json 201 (JAppointment a), s')
                \<and> status a = pending \<and> collectedBy a = u_id u
                \<and> appointments s' = appointments s @ [a])
          \<or> (\<exists>e s'. post_appointments (Some u) body now now' s = (Thrown e, s')
                \<and> appointments s' = appointments s))
       \<and> ((\<exists>a s'. post_appointments (Some u) body now now' s = (Json 201 (JAppointment a), s'))
          = (\<exists>d. insertAppointmentSchema_parse b = Inr d
                 \<and> fst (serial (ia_id d) (appointments_id_seq s)) \<notin> set (map a_id (appointments s))))"
  proof (cases "insertAppointmentSchema_parse b")
    case (Inl e)
    with assms show ?thesis by (simp add: post_appointments_def b_def)
  next
    case (Inr ia)
    from parse_Inr[OF Inr] have ia: "ia_status ia = pending" "ia_collectedBy ia = u_id u"
      by (simp_all add: b_def pending_def)
    obtain r s' where c: "createAppointment ia now' s = (r, s')" by (cases "createAppointment ia now' s")
    show ?thesis
    proof (cases rule: createAppointment_cases[of ia s now'])
      case clash
      with c assms Inr show ?thesis by (simp add: post_appointments_def b_def)
    next
      case (inserted row)
      with c assms Inr ia show ?thesis by (simp add: post_appointments_def b_def)
    qed
  qed
  from same rest show ?thesis unfolding b_def by blast
qed

text \<open>
  An instance: a body that asks for status \<open>approved\<close> and \<open>collectedBy\<close> 99 is
  answered 201 with a pending appointment collected by the caller.
\<close>

theorem post_appointments_server_fields_witness:
  "role alice = str ''collector''
   \<and> post_appointments (Some alice) forged_body (str ''t1'') (str ''t2'') empty_storage
       = post_appointments (Some alice) (forged_body\<lparr>f_status := Absent, f_collectedBy := Absent\<rparr>)
           (str ''t1'') (str ''t2'') empty_storage
   \<and> (\<exists>a s'. post_appointments (Some alice) forged_body (str ''t1'') (str ''t2'') empty_storage
                 = (Json 201 (JAppointment a), s')
              \<and> status a = pending \<and> collectedBy a = u_id alice
              \<and> appointments s' = appointments empty_storage @ [a])"
proof -
  have r: "role alice = str ''collector''" by (simp add: alice_def)
  have e: "fst (post_appointments (Some alice) forged_body (str ''t1'') (str ''t2'') empty_storage)
      \<noteq> Thrown e" for e
    by (simp add: post_appointments_def alice_def forged_body_def no_fields_def empty_storage_def
      insertAppointmentSchema_parse_def createAppointment_def serial_def Let_def)
  have i: "(forged_body\<lparr>f_status := Absent, f_collectedBy := Absent\<rparr>)
      \<lparr>f_status := Given (str ''approved''), f_collectedBy := Given 99\<rparr> = forged_body"
    by (simp add: forged_body_def)
  from post_appointments_server_fields[OF r,
      where body = "forged_body\<lparr>f_status := Absent, f_collectedBy := Absent\<rparr>"
        and st = "Given (str ''approved'')" and cb = "Given 99" and now = "str ''t1''"
        and now' = "str ''t2''" and s = empty_storage]
  have 1: "post_appointments (Some alice) forged_body (str ''t1'') (str ''t2'') empty_storage
       = post_appointments (Some alice) (forged_body\<lparr>f_status := Absent, f_collectedBy := Absent\<rparr>)
           (str ''t1'') (str ''t2'') empty_storage"
    by (simp only: i)
  from post_appointments_server_fields[OF r, where body = forged_body and now = "str ''t1''"
        and now' = "str ''t2''" and s = empty_storage] e
  have 2: "\<exists>a s'. post_appointments (Some alice) forged_body (str ''t1'') (str ''t2'') empty_storage
                 = (Json 201 (JAppointment a), s')
              \<and> status a = pending \<and> collectedBy a = u_id alice
              \<and> appointments s' = appointments empty_storage @ [a]"
    by (metis fst_conv)
  from r 1 2 show ?thesis by blast
qed

subsection \<open>C3: approval sets status and approvedBy, and needs the approver role\<close>

text \<open>
  Claim C3. \<open>PATCH /api/appointments/:id\<close> from an authenticated caller whose role is
  not \<open>approver\<close> is answered 403 and leaves the storage object as it was. From an
  approver, for an id that \<open>parseId\<close> accepts and \<open>getAppointment\<close> finds, the result
  does not depend on what the body holds under \<open>status\<close> and \<open>approvedBy\<close>; and either
  the answer is 200 with the updated record, which is in the table, has status
  \<open>approved\<close> and \<open>approvedBy\<close> the caller's id, every row of the table being as
  before or approved by the caller; or the database refuses the update and the table is
  unchanged. It refuses exactly when the update holds a value it rejects or gives the
  row the key of another row.
\<close>

theorem patch_appointment_approves:
  "(role u \<noteq> str ''approver'' \<longrightarrow> patch_appointment (Some u) param body s = (SendStatus 403, s))
   \<and> (role u = str ''approver'' \<and> parseId param = Some n \<and> fst (getAppointment n s) = Inr (Some a) \<longrightarrow>
        patch_appointment (Some u) param (body\<lparr>f_status := st, f_approvedBy := ab\<rparr>) s
          = patch_appointment (Some u) param body s
        \<and> ((\<exists>r s'. patch_appointment (Some u) param body s = (Json 200 (JUpdated (Some r)), s')
                \<and> status r = approved \<and> approvedBy r = Some (u_id u)
                \<and> r \<in> set (appointments s')
                \<and> length (appointments s') = length (appointments s)
                \<and> (\<forall>k < length (appointments s).
                      appointments s' ! k = appointments s ! k
                      \<or> status (appointments s' ! k) = approved
                        \<and> approvedBy (appointments s' ! k) = Some (u_id u)))
           \<or> (\<exists>s'. patch_appointment (Some u) param body s = (Thrown DbError, s')
                \<and> appointments s' = appointments s))
        \<and> ((\<exists>s'. patch_appointment (Some u) param body s = (Thrown DbError, s'))
           = (refused ((spread (fields_of a) body)
                         \<lparr>f_approvedBy := Given (Some (u_id u)), f_status := Given (str ''approved'')\<rparr>)
              \<or> key_clash (a_id a) (f_id (spread (fields_of a) body)) (appointments s))))"
proof (intro conjI impI)
  assume "role u \<noteq> str ''approver''"
  then show "patch_appointment (Some u) param body s = (SendStatus 403, s)"
    by (simp add: patch_appointment_def)
next
  assume h: "role u = str ''approver'' \<and> parseId param = Some n \<and> fst (getAppointment n s) = Inr (Some a)"
  then obtain i where g: "getAppointment n s = (Inr (Some a), sql Appointments (called GetAppointment s))"
    using getAppointment_found[of n s a] by blast
  have sp: "(spread (fields_of a) (body\<lparr>f_status := st, f_approvedBy := ab\<rparr>))
              \<lparr>f_approvedBy := Given (Some (u_id u)), f_status := Given (str ''approved'')\<rparr>
          = (spread (fields_of a) body)
              \<lparr>f_approvedBy := Given (Some (u_id u)), f_status := Given (str ''approved'')\<rparr>"
    by (simp add: spread_def)
  show "patch_appointment (Some u) param (body\<lparr>f_status := st, f_approvedBy := ab\<rparr>) s
          = patch_appointment (Some u) param body s"
    using h g by (simp add: patch_appointment_def sp)
next
  assume h: "role u = str ''approver'' \<and> parseId param = Some n \<and> fst (getAppointment n s) = Inr (Some a)"
  then obtain i where i: "n = Integer i" "1 \<le> i" "a \<in> set (appointments s)" "a_id a = i"
    "first (filter (\<lambda>r. a_id r = i) (appointments s)) = Some a"
    "getAppointment n s = (Inr (Some a), sql Appointments (called GetAppointment s))"
    using getAppointment_found[of n s a] by blast
  define s1 where "s1 = sql Appointments (called GetAppointment s)"
  define upd where "upd = (spread (fields_of a) body)
              \<lparr>f_approvedBy := Given (Some (u_id u)), f_status := Given (str ''approved'')\<rparr>"
  have p: "patch_appointment (Some u) param body s =
      (case updateAppointment n upd s1 of
         (Inl e, s2) \<Rightarrow> (Thrown e, s2)
       | (Inr updated, s2) \<Rightarrow> (Json 200 (JUpdated updated), s2))"
    using h i(6) by (simp add: patch_appointment_def s1_def upd_def)
  have s1: "appointments s1 = appointments s" by (simp add: s1_def)
  have u1: "f_status upd = Given approved" "f_approvedBy upd = Given (Some (u_id u))"
    by (simp_all add: upd_def approved_def)
  have both: "((\<exists>r s'. patch_appointment (Some u) param body s = (Json 200 (JUpdated (Some r)), s')
                \<and> status r = approved \<and> approvedBy r = Some (u_id u)
                \<and> r \<in> set (appointments s')
                \<and> length (appointments s') = length (appointments s)
                \<and> (\<forall>k < length (appointments s).
                      appointments s' ! k = appointments s ! k
                      \<or> status (appointments s' ! k) = approved
                        \<and> approvedBy (appointments s' ! k) = Some (u_id u)))
           \<or> (\<exists>s'. patch_appointment (Some u) param body s = (Thrown DbError, s')
                \<and> appointments s' = appointments s))
        \<and> ((\<exists>s'. patch_appointment (Some u) param body s = (Thrown DbError, s'))
           = (refused upd \<or> key_clash (a_id a) (f_id upd) (appointments s)))"
  proof (cases rule: updateAppointment_cases[of n upd s1])
    case invalid
    with i show ?thesis by simp
  next
    case (refused j)
    with i have j: "j = a_id a" by simp
    from refused p s1 j show ?thesis by simp
  next
    case (updated j)
    with i have j: "j = i" by simp
    have "first (map (set_columns upd) (filter (\<lambda>r. a_id r = i) (appointments s))) = Some (set_columns upd a)"
      using i(5) by (cases "filter (\<lambda>r. a_id r = i) (appointments s)") auto
    moreover have "set_columns upd a \<in> set (map (\<lambda>r. if a_id r = i then set_columns upd r else r) (appointments s))"
      using i(3,4) by force
    ultimately show ?thesis
      using p updated(3,4,5) u1 s1 j i(4) by (auto simp: set_columns_def)
  qed
  have fid: "f_id upd = f_id (spread (fields_of a) body)" by (simp add: upd_def)
  from both show "(\<exists>r s'. patch_appointment (Some u) param body s = (Json 200 (JUpdated (Some r)), s')
                \<and> status r = approved \<and> approvedBy r = Some (u_id u)
                \<and> r \<in> set (appointments s')
                \<and> length (appointments s') = length (appointments s)
                \<and> (\<forall>k < length (appointments s).
                      appointments s' ! k = appointments s ! k
                      \<or> status (appointments s' ! k) = approved
                        \<and> approvedBy (appointments s' ! k) = Some (u_id u)))
           \<or> (\<exists>s'. patch_appointment (Some u) param body s = (Thrown DbError, s')
                \<and> appointments s' = appointments s)"
    by blast
  from both show "(\<exists>s'. patch_appointment (Some u) param body s = (Thrown DbError, s'))
           = (refused ((spread (fields_of a) body)
                         \<lparr>f_approvedBy := Given (Some (u_id u)), f_status := Given (str ''approved'')\<rparr>)
              \<or> key_clash (a_id a) (f_id (spread (fields_of a) body)) (appointments s))"
    unfolding fid[symmetric] upd_def[symmetric] by blast
qed

text \<open>
  An instance: a collector is refused; an approver's PATCH with a body that asks for
  another \<open>approvedBy\<close> yields an appointment approved by the approver.
\<close>

theorem patch_appointment_approves_witness:
  "role alice \<noteq> str ''approver''
   \<and> patch_appointment (Some alice) (str ''1'') forged_body one_appointment = (SendStatus 403, one_appointment)
   \<and> role bob = str ''approver'' \<and> parseId (str ''1'') = Some (Integer 1)
   \<and> fst (getAppointment (Integer 1) one_appointment) = Inr (Some first_appointment)
   \<and> (\<exists>r s'. patch_appointment (Some bob) (str ''1'') forged_body one_appointment
                 = (Json 200 (JUpdated (Some r)), s')
              \<and> status r = approved \<and> approvedBy r = Some (u_id bob)
              \<and> r \<in> set (appointments s'))"
proof -
  have ra: "role alice \<noteq> str ''approver''" by (simp add: alice_def str_def)
  have rb: "role bob = str ''approver''" by (simp add: bob_def)
  have p: "parseId (str ''1'') = Some (Integer 1)"
    by (simp add: parseId_def parseInt10_def isWhiteSpace_def isDigit_def digits_value_def str_def)
  have g: "fst (getAppointment (Integer 1) one_appointment) = Inr (Some first_appointment)"
    by (simp add: getAppointment_def one_appointment_def empty_storage_def
        first_appointment_def where_eq_def Let_def)
  have e: "fst (patch_appointment (Some bob) (str ''1'') forged_body one_appointment) \<noteq> Thrown DbError"
    using p
    by (auto simp: patch_appointment_def bob_def getAppointment_def one_appointment_def
        empty_storage_def first_appointment_def where_eq_def Let_def updateAppointment_def
        refused_def key_clash_def spread_def fields_of_def forged_body_def no_fields_def
        called_def sql_def)
  note t = patch_appointment_approves[where u = alice and param = "str ''1''" and body = forged_body
      and s = one_appointment]
    patch_appointment_approves[where u = bob and param = "str ''1''" and body = forged_body
      and s = one_appointment and n = "Integer 1" and a = first_appointment]
  from t(1) ra have 1: "patch_appointment (Some alice) (str ''1'') forged_body one_appointment
      = (SendStatus 403, one_appointment)" by blast
  from t(2) rb p g e have 2: "\<exists>r s'. patch_appointment (Some bob) (str ''1'') forged_body one_appointment
                 = (Json 200 (JUpdated (Some r)), s')
              \<and> status r = approved \<and> approvedBy r = Some (u_id bob)
              \<and> r \<in> set (appointments s')"
    by (metis fst_conv)
  from ra rb p g 1 2 show ?thesis by blast
qed

subsection \<open>C4: stored passwords\<close>

text \<open>
  Claim C4, as amended. Let \<open>scrypt\<close> return the 64 bytes asked for and let
  \<open>randomBytes\<close> return 16 bytes. The password of the row \<open>createUser\<close> returns is
  \<open>hashPassword\<close> of the plaintext, 161 characters. It is the plaintext exactly when
  the plaintext is itself the hexadecimal digits of the key derived from it, a dot and
  the hexadecimal digits of the salt drawn in this call. So it differs from the
  plaintext whenever the plaintext does not end, from its 130th character on, in the
  digits of that salt (in particular when it is not 161 characters long), and for
  every plaintext it differs for all salts but at most one. \<open>comparePasswords\<close>
  succeeds on the original plaintext. On any other plaintext it returns whether
  \<open>scrypt\<close> derives the same key from it under the stored salt.
\<close>

theorem stored_password_verifies:
  assumes "\<forall>pw salt. length (scryptAsync pw salt 64) = 64"
    and "length random = 16"
    and "createUser scryptAsync random insertUser s = (Inr row, s')"
  shows "password row = hashPassword scryptAsync random (iu_password insertUser)
    \<and> length (password row) = 161
    \<and> (password row = iu_password insertUser)
        = (iu_password insertUser
            = toHex (scryptAsync (utf8 (iu_password insertUser)) (utf8 (toHex random)) 64)
              @ str ''.'' @ toHex random)
    \<and> (drop 129 (iu_password insertUser) \<noteq> toHex random \<longrightarrow> password row \<noteq> iu_password insertUser)
    \<and> (length (iu_password insertUser) \<noteq> 161 \<longrightarrow> password row \<noteq> iu_password insertUser)
    \<and> (\<forall>random'. random' \<noteq> random
            \<and> hashPassword scryptAsync random' (iu_password insertUser) = iu_password insertUser
          \<longrightarrow> password row \<noteq> iu_password insertUser)
    \<and> comparePasswords scryptAsync (iu_password insertUser) (password row) = Inr True
    \<and> (\<forall>other. comparePasswords scryptAsync other (password row)
          = Inr (scryptAsync (utf8 (iu_password insertUser)) (utf8 (toHex random)) 64
                 = scryptAsync (utf8 other) (utf8 (toHex random)) 64))"
proof -
  let ?p = "iu_password insertUser"
  have p: "password row = hashPassword scryptAsync random ?p"
    using createUser_Inr(1)[OF assms(3)] .
  have l: "length (password row) = 161"
    using assms(1,2) by (simp add: p length_hashPassword)
  have x: "(password row = ?p)
        = (?p = toHex (scryptAsync (utf8 ?p) (utf8 (toHex random)) 64) @ str ''.'' @ toHex random)"
    by (auto simp: p hashPassword_def Let_def)
  have d: "drop 129 (hashPassword scryptAsync r ?p) = toHex r" for r
    using assms(1) by (simp add: drop_hashPassword)
  have e: "password row \<noteq> ?p" if "drop 129 ?p \<noteq> toHex random"
    using that d[of random] p by metis
  have n: "password row \<noteq> ?p" if "length ?p \<noteq> 161"
    using that l by metis
  have u: "password row \<noteq> ?p"
    if "random' \<noteq> random \<and> hashPassword scryptAsync random' ?p = ?p" for random'
  proof
    assume "password row = ?p"
    with p d[of random] have "drop 129 ?p = toHex random" by simp
    moreover from that d[of random'] have "drop 129 ?p = toHex random'" by simp
    ultimately have "random' = random" using toHex_inj by metis
    with that show False by simp
  qed
  have c: "comparePasswords scryptAsync other (password row)
          = Inr (scryptAsync (utf8 ?p) (utf8 (toHex random)) 64
                 = scryptAsync (utf8 other) (utf8 (toHex random)) 64)" for other
    using assms(1) by (simp add: p comparePasswords_hashPassword timingSafeEqual_def)
  from c[of ?p] have v: "comparePasswords scryptAsync ?p (password row) = Inr True" by simp
  from p l x e n u v c show ?thesis by blast
qed

text \<open>
  An instance, with \<open>padding\<close> for \<open>scrypt\<close>: the row is created, the stored password
  differs from the plaintext, the plaintext verifies and another one does not.
\<close>

theorem stored_password_verifies_witness:
  "(\<forall>pw salt. length (padding pw salt 64) = 64)
   \<and> length (replicate 16 (7 :: byte)) = 16
   \<and> drop 129 (iu_password carol) \<noteq> toHex (replicate 16 7)
   \<and> (\<exists>row s'. createUser padding (replicate 16 7) carol empty_storage = (Inr row, s')
        \<and> length (password row) = 161
        \<and> password row \<noteq> iu_password carol
        \<and> comparePasswords padding (iu_password carol) (password row) = Inr True
        \<and> comparePasswords padding (str ''p2'') (password row) = Inr False)"
proof -
  have k: "\<forall>pw salt. length (padding pw salt 64) = 64" by (auto simp: padding_def)
  have r: "length (replicate 16 (7 :: byte)) = 16" by simp
  obtain row s' where c: "createUser padding (replicate 16 7) carol empty_storage = (Inr row, s')"
    using carol_created by (cases "createUser padding (replicate 16 7) carol empty_storage") auto
  have "length (drop 129 (iu_password carol)) \<noteq> length (toHex (replicate 16 (7 :: byte)))"
    by (simp add: carol_def str_def length_toHex)
  then have n: "drop 129 (iu_password carol) \<noteq> toHex (replicate 16 7)" by metis
  have d: "padding (utf8 (iu_password carol)) (utf8 (toHex (replicate 16 7))) 64
         \<noteq> padding (utf8 (str ''p2'')) (utf8 (toHex (replicate 16 7))) 64"
    by (simp add: padding_def carol_def str_def utf8_code_point_def high_surrogate_def
        low_surrogate_def)
  note t = stored_password_verifies[OF k r c]
  from t have A: "length (password row) = 161" by blast
  from t n have B: "password row \<noteq> iu_password carol" by blast
  from t have C: "comparePasswords padding (iu_password carol) (password row) = Inr True" by blast
  from t have "comparePasswords padding (str ''p2'') (password row)
          = Inr (padding (utf8 (iu_password carol)) (utf8 (toHex (replicate 16 7))) 64
                 = padding (utf8 (str ''p2'')) (utf8 (toHex (replicate 16 7))) 64)"
    by blast
  with d have D: "comparePasswords padding (str ''p2'') (password row) = Inr False"
    by (simp only: simp_thms)
  from A B C D have
    "length (password row) = 161 \<and> password row \<noteq> iu_password carol
        \<and> comparePasswords padding (iu_password carol) (password row) = Inr True
        \<and> comparePasswords padding (str ''p2'') (password row) = Inr False"
    by blast
  with k r n c show ?thesis by blast
qed

text \<open>
  The claim as stated (verification fails for every other plaintext) does not hold:
  whatever \<open>scrypt\<close> and the salt are, two different strings with the same UTF-8
  encoding verify against each other's hash. Here the strings are two unpaired
  surrogate code units, both encoded as U+FFFD.
\<close>

theorem other_plaintext_verifies:
  "[0xDBFF] \<noteq> [0xD800 :: code_unit]
   \<and> (\<forall>scryptAsync random.
        comparePasswords scryptAsync [0xDBFF] (hashPassword scryptAsync random [0xD800]) = Inr True)"
proof (intro conjI allI)
  show "[0xDBFF] \<noteq> [0xD800 :: code_unit]" by simp
next
  fix scryptAsync :: scrypt and random :: bytes
  have "timingSafeEqual (scryptAsync (utf8 [0xDBFF]) (utf8 (toHex random)) 64)
          (scryptAsync (utf8 [0xDBFF]) (utf8 (toHex random)) 64) = Inr True"
    by (simp only: timingSafeEqual_def) simp
  then show "comparePasswords scryptAsync [0xDBFF] (hashPassword scryptAsync random [0xD800]) = Inr True"
    by (simp only: comparePasswords_hashPassword utf8_unpaired)
qed

text \<open>
  The case left open in the first part is a property of the values of \<open>scrypt\<close>: of
  a function known only to return 64 bytes it cannot be excluded. For \<open>zeros\<close> and
  the salt of 16 zero bytes, the plaintext made of 128 digits 0, a dot and 32 digits 0
  is stored as itself.
\<close>

lemma stored_password_fixed_point:
  "(\<forall>pw salt. length (zeros pw salt 64) = 64)
   \<and> hashPassword zeros (replicate 16 0) (replicate 128 48 @ str ''.'' @ replicate 32 48)
       = replicate 128 48 @ str ''.'' @ replicate 32 48"
proof -
  have h: "toHex (replicate n 0) = replicate (2 * n) 48" for n
    by (induction n) (simp_all add: toHex_def hex_digit_def)
  have "replicate (2 * 64) (48 :: code_unit) = replicate 128 48" "replicate (2 * 16) (48 :: code_unit) = replicate 32 48"
    by simp_all
  then show ?thesis by (simp add: hashPassword_def Let_def zeros_def h)
qed

subsection \<open>C5: getters and ids that are not positive integers\<close>

text \<open>
  Claim C5 does not hold for \<open>getUser\<close>, which has no check of its argument (the
  other three return \<open>undefined\<close> without a query, lemma \<open>guarded_getters\<close>): on
  \<open>NaN\<close> its promise is rejected; on 0 it queries the table; and on \<open>- 1\<close> it
  returns the user that \<open>createUser\<close> stored under the key \<open>- 1\<close> it was given.
\<close>

theorem getUser_unguarded:
  "fst (getUser NaN s) = Inl DbError
   \<and> snd (getUser (Integer 0) s) = sql Users (called GetUser s)
   \<and> (case createUser scryptAsync random ghost empty_storage of
         (Inl e, s') \<Rightarrow> False
       | (Inr row, s') \<Rightarrow> u_id row = - 1 \<and> fst (getUser (Integer (- 1)) s') = Inr (Some row))"
  by (simp add: getUser_def where_eq_def Let_def createUser_def ghost_def empty_storage_def serial_def)

subsection \<open>C6: id parameters\<close>

text \<open>
  Claim C6, as amended. When \<open>parseInt\<close> finds no number in the id parameter
  (\<open>parseId\<close> returns \<open>null\<close>), the routes answer 400 and leave the storage object as
  it was: no operation of it is invoked. When the parameter is parsed to a number that
  is not a positive integer, \<open>GET /api/appointments/:id\<close> invokes \<open>getAppointment\<close>,
  which returns \<open>undefined\<close> without a query, and the answer is 404.
\<close>

theorem parseId_rejects_only_NaN:
  "(parseId param = None \<longrightarrow>
      get_appointment (Some u) param s = (Send 400 (str ''Invalid ID''), s)
      \<and> get_download_pdf (Some u) param s = (Send 400 (str ''Invalid ID''), s)
      \<and> (role u = str ''approver'' \<longrightarrow>
            patch_appointment (Some u) param body s = (Send 400 (str ''Invalid ID''), s)
            \<and> post_appointment_pdf (Some u) param part s = (Send 400 (str ''Invalid ID''), s)))
   \<and> (parseId param = Some n \<and> (\<not> isInteger n \<or> js_less n 1) \<longrightarrow>
        get_appointment (Some u) param s = (SendStatus 404, called GetAppointment s))"
  by (simp add: get_appointment_def get_download_pdf_def patch_appointment_def
      post_appointment_pdf_def guarded_getters)

text \<open>
  An instance: \<open>abc\<close> is answered 400, \<open>-5\<close> is answered 404.
\<close>

theorem parseId_rejects_only_NaN_witness:
  "parseId (str ''abc'') = None
   \<and> get_appointment (Some bob) (str ''abc'') one_appointment
       = (Send 400 (str ''Invalid ID''), one_appointment)
   \<and> parseId (str ''-5'') = Some (Integer (- 5)) \<and> js_less (Integer (- 5)) 1
   \<and> get_appointment (Some bob) (str ''-5'') one_appointment
       = (SendStatus 404, called GetAppointment one_appointment)"
proof -
  have a: "parseId (str ''abc'') = None"
    by (simp add: parseId_def parseInt10_def isWhiteSpace_def isDigit_def str_def)
  have b: "parseId (str ''-5'') = Some (Integer (- 5))"
    by (simp add: parseId_def parseInt10_def isWhiteSpace_def isDigit_def digits_value_def str_def)
  from a parseId_rejects_only_NaN[of "str ''abc''" bob one_appointment]
       b parseId_rejects_only_NaN[of "str ''-5''" bob one_appointment _ _ "Integer (- 5)"]
  show ?thesis by simp
qed

text \<open>
  The claim as stated does not hold: the parameters \<open>0\<close> and \<open>-5\<close> are not answered
  with 400 but with 404, after \<open>getAppointment\<close> was invoked; and \<open>1st\<close> is read as
  the id 1.
\<close>

theorem nonpositive_id_reaches_store:
  "get_appointment (Some bob) (str ''0'') one_appointment
     = (SendStatus 404, called GetAppointment one_appointment)
   \<and> get_appointment (Some bob) (str ''-5'') one_appointment
     = (SendStatus 404, called GetAppointment one_appointment)
   \<and> fst (get_appointment (Some bob) (str ''1st'') one_appointment)
     = Json 200 (JAppointment first_appointment)"
  by (simp add: get_appointment_def eval_defs)

subsection \<open>C7: a PDF that is not there\<close>

text \<open>
  Claim C7, as amended. For an authenticated caller and an id that \<open>parseId\<close>
  accepts: when the appointment exists and the PDF map holds nothing for the id, the
  answer is 404 after \<open>getAppointment\<close> and \<open>getPdf\<close>; when the appointment does not
  exist, the answer is the same 404, after \<open>getAppointment\<close> alone.
\<close>

theorem download_pdf_not_found:
  "parseId param = Some n \<longrightarrow>
     (fst (getAppointment n s) = Inr (Some a) \<and> fst (getPdf n s) = None \<longrightarrow>
        get_download_pdf (Some u) param s
          = (SendStatus 404, called GetPdf (sql Appointments (called GetAppointment s))))
     \<and> (fst (getAppointment n s) = Inr None \<longrightarrow>
        get_download_pdf (Some u) param s = (SendStatus 404, snd (getAppointment n s)))"
proof (intro impI conjI)
  assume p: "parseId param = Some n"
    and h: "fst (getAppointment n s) = Inr (Some a) \<and> fst (getPdf n s) = None"
  then obtain i where g: "getAppointment n s = (Inr (Some a), sql Appointments (called GetAppointment s))"
    using getAppointment_found[of n s a] by blast
  from h have "pdfStorage s n = None" by (simp add: getPdf_def)
  with p g show "get_download_pdf (Some u) param s
          = (SendStatus 404, called GetPdf (sql Appointments (called GetAppointment s)))"
    by (simp add: get_download_pdf_def getPdf_def)
next
  assume p: "parseId param = Some n" and h: "fst (getAppointment n s) = Inr None"
  obtain r s1 where g: "getAppointment n s = (r, s1)" by (cases "getAppointment n s")
  with p h show "get_download_pdf (Some u) param s = (SendStatus 404, snd (getAppointment n s))"
    by (simp add: get_download_pdf_def)
qed

text \<open>
  An instance of both cases.
\<close>

theorem download_pdf_not_found_witness:
  "parseId (str ''1'') = Some (Integer 1)
   \<and> fst (getAppointment (Integer 1) one_appointment) = Inr (Some first_appointment)
   \<and> fst (getPdf (Integer 1) one_appointment) = None
   \<and> get_download_pdf (Some bob) (str ''1'') one_appointment
       = (SendStatus 404, called GetPdf (sql Appointments (called GetAppointment one_appointment)))
   \<and> fst (getAppointment (Integer 1) empty_storage) = Inr None
   \<and> get_download_pdf (Some bob) (str ''1'') empty_storage
       = (SendStatus 404, snd (getAppointment (Integer 1) empty_storage))"
proof -
  have p: "parseId (str ''1'') = Some (Integer 1)"
    by (simp add: parseId_def parseInt10_def isWhiteSpace_def isDigit_def digits_value_def str_def)
  have a: "fst (getAppointment (Integer 1) one_appointment) = Inr (Some first_appointment)"
    "fst (getPdf (Integer 1) one_appointment) = None"
    "fst (getAppointment (Integer 1) empty_storage) = Inr None"
    by (simp_all add: getAppointment_def getPdf_def one_appointment_def empty_storage_def
        first_appointment_def where_eq_def Let_def)
  from p a download_pdf_not_found[of "str ''1''" "Integer 1" one_appointment first_appointment bob]
    download_pdf_not_found[of "str ''1''" "Integer 1" empty_storage first_appointment bob]
  show ?thesis by simp
qed

text \<open>
  The claim as stated does not hold: the two answers are equal.
\<close>

theorem same_not_found_signal:
  "fst (getAppointment (Integer 1) one_appointment) = Inr (Some first_appointment)
   \<and> fst (getPdf (Integer 1) one_appointment) = None
   \<and> fst (getAppointment (Integer 1) empty_storage) = Inr None
   \<and> fst (get_download_pdf (Some bob) (str ''1'') one_appointment) = SendStatus 404
   \<and> fst (get_download_pdf (Some bob) (str ''1'') empty_storage) = SendStatus 404"
  by (simp add: get_download_pdf_def eval_defs)

subsection \<open>C8: the PDF map\<close>

text \<open>
  Claim C8. \<open>getPdf\<close> after \<open>storePdf\<close> of the same id returns the bytes stored, and
  leaves what \<open>getPdf\<close> returns for any other id as it was; and for an id that is not
  among those of a run of \<open>storePdf\<close> calls on a new storage object, \<open>getPdf\<close>
  returns \<open>undefined\<close>.
\<close>

theorem getPdf_after_storePdf:
  "fst (getPdf i (storePdf i b s)) = Some b
   \<and> (j \<noteq> i \<longrightarrow> fst (getPdf j (storePdf i b s)) = fst (getPdf j s))
   \<and> (i \<notin> fst ` set puts \<longrightarrow> fst (getPdf i (storePdfs puts (new_storage db))) = None)"
  by (simp add: getPdf_def storePdfs_other new_storage_def)

text \<open>
  An instance.
\<close>

theorem getPdf_after_storePdf_witness:
  "fst (getPdf (Integer 1) (storePdf (Integer 1) [37, 80, 68, 70] empty_storage)) = Some [37, 80, 68, 70]
   \<and> Integer 2 \<noteq> Integer 1
   \<and> fst (getPdf (Integer 2) (storePdf (Integer 1) [37, 80, 68, 70] empty_storage))
       = fst (getPdf (Integer 2) empty_storage)
   \<and> Integer 2 \<notin> fst ` set [(Integer 1, [37, 80, 68, 70]), (NaN, [])]
   \<and> fst (getPdf (Integer 2)
        (storePdfs [(Integer 1, [37, 80, 68, 70]), (NaN, [])] (new_storage one_appointment))) = None"
  using getPdf_after_storePdf[where i = "Integer 1" and b = "[37, 80, 68, 70]" and s = empty_storage
      and j = "Integer 2" and puts = "[]" and db = one_appointment]
    getPdf_after_storePdf[where i = "Integer 2" and b = "[]" and s = empty_storage
      and j = "Integer 2" and puts = "[(Integer 1, [37, 80, 68, 70]), (NaN, [])]"
      and db = one_appointment]
  by simp

subsection \<open>C9: removing a team member\<close>

text \<open>
  Claim C9. \<open>removeTeamMember(teamId, userId)\<close> does the same for every \<open>teamId\<close>
  as for 0; it leaves the \<open>team_members\<close> table as it was; and for an integer
  \<open>userId\<close> it sets \<open>teamId\<close> to \<open>null\<close> in the rows of \<open>users\<close> with that key and
  leaves the other rows as they were (for a \<open>userId\<close> that is not an integer the
  database refuses the statement and \<open>users\<close> is unchanged).
\<close>

theorem removeTeamMember_clears_team:
  "removeTeamMember teamId' userId s = removeTeamMember (Integer 0) userId s
   \<and> teamMembers (snd (removeTeamMember teamId' userId s)) = teamMembers s
   \<and> (case userId of
         Integer u \<Rightarrow>
           fst (removeTeamMember teamId' userId s) = Inr ()
           \<and> users (snd (removeTeamMember teamId' userId s))
               = map (\<lambda>r. if u_id r = u then r\<lparr>u_teamId := None\<rparr> else r) (users s)
       | _ \<Rightarrow>
           fst (removeTeamMember teamId' userId s) = Inl DbError
           \<and> users (snd (removeTeamMember teamId' userId s)) = users s)"
  by (cases userId) (simp_all add: removeTeamMember_def updateUserTeam_def Let_def)

subsection \<open>C10: bookingDetails of a new appointment\<close>

text \<open>
  Claim C10. \<open>createAppointment\<close> gives the same result whatever the input holds
  under \<open>bookingDetails\<close>; the row it adds to the table has \<open>bookingDetails\<close> equal to
  \<open>{date: now}\<close>, \<open>now\<close> being the clock at the insertion; without a row added the
  table is unchanged; and a row is added exactly when the key is not taken.
\<close>

theorem createAppointment_bookingDetails:
  "createAppointment (ia\<lparr>ia_bookingDetails := supplied\<rparr>) now s = createAppointment ia now s
   \<and> (case createAppointment ia now s of
         (Inl e, s') \<Rightarrow> appointments s' = appointments s
       | (Inr a, s') \<Rightarrow> bookingDetails a = \<lparr>date = now\<rparr> \<and> appointments s' = appointments s @ [a])
   \<and> ((\<exists>a. fst (createAppointment ia now s) = Inr a)
        = (fst (serial (ia_id ia) (appointments_id_seq s)) \<notin> set (map a_id (appointments s))))"
proof (intro conjI)
  show "createAppointment (ia\<lparr>ia_bookingDetails := supplied\<rparr>) now s = createAppointment ia now s"
    by (simp add: createAppointment_def)
next
  obtain r s' where c: "createAppointment ia now s = (r, s')" by (cases "createAppointment ia now s")
  show "case createAppointment ia now s of
         (Inl e, s') \<Rightarrow> appointments s' = appointments s
       | (Inr a, s') \<Rightarrow> bookingDetails a = \<lparr>date = now\<rparr> \<and> appointments s' = appointments s @ [a]"
    by (cases rule: createAppointment_cases[of ia s now]) (use c in auto)
next
  show "(\<exists>a. fst (createAppointment ia now s) = Inr a)
        = (fst (serial (ia_id ia) (appointments_id_seq s)) \<notin> set (map a_id (appointments s)))"
    by (cases rule: createAppointment_cases[of ia s now]) auto
qed

end
